theory Spec2Isabelle
  imports Main "HOL-Library.AList"
begin

section \<open>JavaScript values used by jRna\<close>

text \<open>
  The primitive values that reach the code under study: \<open>undefined\<close>, \<open>null\<close>, booleans,
  numbers, \<open>NaN\<close> and strings. Numbers are the integers (the embedding has no floating
  point); strings are ASCII. Objects, functions and arrays are the separate type
  \<open>jsval\<close> below, because the language's loose equality on them needs their source text.
\<close>

datatype jsprim = JUndefined | JNull | JBool bool | JNum int | JNaN | JStr string

text \<open>Truthiness, as \<open>if (v)\<close>, \<open>!v\<close> and \<open>v || w\<close> read a value.\<close>

fun js_truthy :: "jsprim \<Rightarrow> bool" where
  "js_truthy JUndefined = False"
| "js_truthy JNull = False"
| "js_truthy (JBool b) = b"
| "js_truthy (JNum n) = (n \<noteq> 0)"
| "js_truthy JNaN = False"
| "js_truthy (JStr s) = (s \<noteq> [])"

text \<open>Strict equality \<open>===\<close>: same type and same value, and \<open>NaN\<close> equals nothing.\<close>

fun strict_eq :: "jsprim \<Rightarrow> jsprim \<Rightarrow> bool" where
  "strict_eq JNaN _ = False"
| "strict_eq _ JNaN = False"
| "strict_eq a b = (a = b)"

text \<open>The decimal form of a number, as \<open>''+n\<close> gives it for an integer.\<close>

fun digits_of :: "nat \<Rightarrow> string" where
  "digits_of n =
     (if n < 10 then [''0123456789'' ! n]
      else digits_of (n div 10) @ [''0123456789'' ! (n mod 10)])"

definition num_to_string :: "int \<Rightarrow> string" where
  "num_to_string i = (if i < 0 then CHR ''-'' # digits_of (nat (- i)) else digits_of (nat i))"

text \<open>String conversion \<open>''+v\<close>, which is also how a value becomes a property key.\<close>

fun js_to_string :: "jsprim \<Rightarrow> string" where
  "js_to_string JUndefined = ''undefined''"
| "js_to_string JNull = ''null''"
| "js_to_string (JBool b) = (if b then ''true'' else ''false'')"
| "js_to_string (JNum n) = num_to_string n"
| "js_to_string JNaN = ''NaN''"
| "js_to_string (JStr s) = s"

text \<open>
  Number conversion of a string, as far as the integers go. Loose equality compares a
  string with a number or a boolean by the number the string denotes, so what matters
  is whether that number is an integer and which. White space is trimmed; the empty
  string is 0; a binary, octal or hexadecimal literal (\<open>0b\<close>, \<open>0o\<close>, \<open>0x\<close>) is its
  value; a decimal literal, with its sign, fraction and exponent, is its exact value
  when that is an integer. \<open>None\<close> is every other case: a string that is no number
  (\<open>NaN\<close>), \<open>Infinity\<close>, and a number with a fraction; none of them equals an integer.
  The arithmetic is exact, where the language rounds to 64-bit floating point.
\<close>

definition is_space :: "char \<Rightarrow> bool" where
  "is_space c = (c \<in> set [CHR '' '', CHR 0x09, CHR 0x0A, CHR 0x0B, CHR 0x0C, CHR 0x0D])"

definition trim :: "string \<Rightarrow> string" where
  "trim s = rev (dropWhile is_space (rev (dropWhile is_space s)))"

definition digit_val :: "char \<Rightarrow> nat option" where
  "digit_val c = map_of (zip ''0123456789abcdef'' [0 ..< 16] @ zip ''ABCDEF'' [10 ..< 16]) c"

definition is_digit :: "char \<Rightarrow> bool" where
  "is_digit c = (c \<in> set ''0123456789'')"

text \<open>The value of a non-empty run of digits in a base; \<open>None\<close> for anything else.\<close>

fun digits_val :: "nat \<Rightarrow> nat \<Rightarrow> string \<Rightarrow> nat option" where
  "digits_val base acc [] = Some acc"
| "digits_val base acc (c # cs) =
     (case digit_val c of
        None \<Rightarrow> None
      | Some d \<Rightarrow> if d < base then digits_val base (base * acc + d) cs else None)"

definition radix_val :: "nat \<Rightarrow> string \<Rightarrow> int option" where
  "radix_val base s = (if s = [] then None else map_option int (digits_val base 0 s))"

text \<open>The exponent part that may follow the digits: nothing, or \<open>e\<close> and a signed integer.\<close>

definition exponent_part :: "string \<Rightarrow> int option" where
  "exponent_part s =
     (case s of
        [] \<Rightarrow> Some 0
      | c # cs \<Rightarrow>
          if c = CHR ''e'' \<or> c = CHR ''E'' then
            (case cs of
               [] \<Rightarrow> None
             | d # ds \<Rightarrow>
                 if d = CHR ''-'' then map_option uminus (radix_val 10 ds)
                 else if d = CHR ''+'' then radix_val 10 ds
                 else radix_val 10 cs)
          else None)"

text \<open>\<open>m\<close> times ten to the \<open>e\<close>, when that is an integer.\<close>

definition scaled :: "nat \<Rightarrow> int \<Rightarrow> int option" where
  "scaled m e =
     (if 0 \<le> e then Some (int m * 10 ^ nat e)
      else if m mod 10 ^ nat (- e) = 0 then Some (int (m div 10 ^ nat (- e)))
      else None)"

definition mantissa :: "string \<Rightarrow> nat \<Rightarrow> string \<Rightarrow> int option" where
  "mantissa ds k rest =
     (case (radix_val 10 ds, exponent_part rest) of
        (Some m, Some e) \<Rightarrow> scaled (nat m) (e - int k)
      | _ \<Rightarrow> None)"

definition unsigned_decimal :: "string \<Rightarrow> int option" where
  "unsigned_decimal s =
     (let ip = takeWhile is_digit s; r = dropWhile is_digit s in
      case r of
        [] \<Rightarrow> mantissa ip 0 []
      | c # r2 \<Rightarrow>
          if c = CHR ''.'' then
            (let fp = takeWhile is_digit r2 in
             mantissa (ip @ fp) (length fp) (dropWhile is_digit r2))
          else if ip = [] then None
          else mantissa ip 0 r)"

definition non_decimal :: "string \<Rightarrow> int option option" where
  "non_decimal s =
     (case s of
        a # b # ds \<Rightarrow>
          if a \<noteq> CHR ''0'' then None
          else if b = CHR ''x'' \<or> b = CHR ''X'' then Some (radix_val 16 ds)
          else if b = CHR ''o'' \<or> b = CHR ''O'' then Some (radix_val 8 ds)
          else if b = CHR ''b'' \<or> b = CHR ''B'' then Some (radix_val 2 ds)
          else None
      | _ \<Rightarrow> None)"

definition string_to_integer :: "string \<Rightarrow> int option" where
  "string_to_integer s =
     (case trim s of
        [] \<Rightarrow> Some 0
      | c # cs \<Rightarrow>
          if c = CHR ''-'' then map_option uminus (unsigned_decimal cs)
          else if c = CHR ''+'' then unsigned_decimal cs
          else (case non_decimal (c # cs) of
                  Some r \<Rightarrow> r
                | None \<Rightarrow> unsigned_decimal (c # cs)))"

text \<open>The integer a primitive is as a number, if it is one.\<close>

fun to_integer :: "jsprim \<Rightarrow> int option" where
  "to_integer JUndefined = None"
| "to_integer JNull = Some 0"
| "to_integer (JBool b) = Some (if b then 1 else 0)"
| "to_integer (JNum n) = Some n"
| "to_integer JNaN = None"
| "to_integer (JStr s) = string_to_integer s"

text \<open>
  Loose equality \<open>==\<close> on primitives: \<open>null\<close> and \<open>undefined\<close> equal each other and
  nothing else, two strings compare as strings, and every other pair compares as
  numbers, of which one at least is a number or a boolean, hence an integer or \<open>NaN\<close>;
  \<open>NaN\<close> equals nothing.
\<close>

fun loose_eq :: "jsprim \<Rightarrow> jsprim \<Rightarrow> bool" where
  "loose_eq JUndefined b = (b = JUndefined \<or> b = JNull)"
| "loose_eq JNull b = (b = JUndefined \<or> b = JNull)"
| "loose_eq a JUndefined = False"
| "loose_eq a JNull = False"
| "loose_eq (JStr s) (JStr t) = (s = t)"
| "loose_eq a b =
     (case (to_integer a, to_integer b) of (Some m, Some n) \<Rightarrow> m = n | _ \<Rightarrow> False)"

text \<open>
  Values that can be callbacks or hold them: a primitive, a function (named by a number),
  an array or a plain object (its keys in enumeration order).
\<close>

datatype jsval = VPrim jsprim | VFun nat | VArr "jsval list" | VObj "(string \<times> jsval) list"

section \<open>Errors\<close>

text \<open>
  The failures are \<open>this.throw(message)\<close>; the constructors are the messages, with the
  values the message is built from. \<open>TypeError\<close> is the language's own error, raised
  where the code calls or reads a property of something that is not there.
\<close>

datatype error =
    NameInUse string
  | ForbiddenArgument string
  | UnexpectedCallback
  | IllegalInitialState jsprim
  | IllegalStateSwitch string jsprim jsprim
  | NullElement string
  | NonJQuery string
  | MissingElement string string
  | AmbiguousElement string string
  | UnknownArgument string
  | EmptySpawn
  | TypeError


section \<open>Outcomes\<close>

text \<open>
  A call either returns or throws; the state is kept in both cases, since what a call
  changed before it threw stays changed.
\<close>

datatype 's outcome = is_Threw: Threw error 's | is_Done: Done 's

text \<open>The same for a call that leaves no state behind: it throws or returns a value.\<close>

datatype 'a result = is_Throws: Throws error | is_Returns: Returns 'a

fun state_of :: "'s outcome \<Rightarrow> 's" where
  "state_of (Threw e s) = s"
| "state_of (Done s) = s"

fun and_then :: "'s outcome \<Rightarrow> ('s \<Rightarrow> 's outcome) \<Rightarrow> 's outcome" where
  "and_then (Threw e s) f = Threw e s"
| "and_then (Done s) f = f s"

section \<open>The render tree\<close>

text \<open>
  A node is an element, with an identity, its classes and its children, or a text node.
  A jQuery set is the list of its nodes in document order.
\<close>

datatype dnode = Elem nat "string list" "dnode list" | TextNode string

fun hasClass :: "dnode \<Rightarrow> string \<Rightarrow> bool" where
  "hasClass (Elem i cs ks) c = (c \<in> set cs)"
| "hasClass (TextNode t) c = False"

fun children :: "dnode \<Rightarrow> dnode list" where
  "children (Elem i cs ks) = ks"
| "children (TextNode t) = []"

text \<open>\<open>subtree n\<close> is \<open>n\<close> and its descendants, \<open>find_class n c\<close> what
  \<open>$(n).find('.' + c)\<close> selects: the descendants of \<open>n\<close> that carry the class.\<close>

fun subtree :: "dnode \<Rightarrow> dnode list" where
  "subtree (Elem i cs ks) = Elem i cs ks # concat (map subtree ks)"
| "subtree (TextNode t) = [TextNode t]"

definition find_class :: "dnode \<Rightarrow> string \<Rightarrow> dnode list" where
  "find_class n c = filter (\<lambda>d. hasClass d c) (concat (map subtree (children n)))"

text \<open>
  What a caller passes where an element is expected: nothing (\<open>null\<close>, \<open>undefined\<close>),
  a selector string, a jQuery set, or some other object.
\<close>

datatype elem_arg = NoElement | Selector string | JQ "dnode list" | NotJQ

section \<open>The blueprint\<close>

text \<open>The setup actions the builder methods queue, and the initializers they register.\<close>

datatype action =
    Output string
  | RawOutput string
  | Input string
  | Click jsval
  | Toggle jsval jsval
  | StickyClick string jsval
  | Element string
  | On string jsval
  | Upload string jsprim

datatype initializer =
    DefInit jsval
  | UserInit nat
  | ArrayInit "jsval list"
  | ObjectInit "(string \<times> jsval) list"
  | StickyInit string "(string \<times> nat) list" jsprim

record arg_spec =
  forbidden :: bool
  assign :: bool

text \<open>
  The state a \<open>jRna\<close> object holds: its own fields (\<open>_known\<close>, \<open>_html\<close>, \<open>_setup\<close>,
  \<open>_init\<close>, \<open>_onAttach\<close>) and the variables its methods close over (\<open>isMethod\<close>,
  \<open>noArgs\<close>, \<open>allowArgs\<close>, \<open>assignArgs\<close>, \<open>callbacks.onRemove\<close>). The tables are read
  by their own properties.
\<close>

record blueprint =
  known :: "string \<rightharpoonup> jsprim"
  isMethod :: "string set"
  html_src :: jsprim
  noArgs :: "string set"
  allowArgs :: "string set"
  assignArgs :: "string \<rightharpoonup> bool"
  setup_list :: "(string \<times> action) list"
  init_list :: "(string \<times> initializer) list"
  onAttach_list :: "nat list"
  onRemove_list :: "nat list"

definition reserved :: "string list" where
  "reserved = [''appendTo'', ''container'', ''element'', ''id'', ''onAttach'', ''onRemove'', ''remove'']"

definition jRna :: blueprint where
  "jRna = \<lparr> known = map_of (map (\<lambda>i. (i, JBool True)) reserved),
            isMethod = {},
            html_src = JUndefined,
            noArgs = set reserved,
            allowArgs = {''id''},
            assignArgs = [''id'' \<mapsto> True],
            setup_list = [],
            init_list = [],
            onAttach_list = [],
            onRemove_list = [] \<rparr>"

text \<open>\<open>this._known[name]\<close>: the stored value, \<open>undefined\<close> for a name never locked.\<close>

definition known_at :: "blueprint \<Rightarrow> string \<Rightarrow> jsprim" where
  "known_at bp name = (case known bp name of None \<Rightarrow> JUndefined | Some v \<Rightarrow> v)"

definition lockName :: "string \<Rightarrow> jsprim \<Rightarrow> blueprint \<Rightarrow> blueprint outcome" where
  "lockName name shared bp =
     (if js_truthy (known_at bp name) \<and> \<not> strict_eq (known_at bp name) shared
      then Threw (NameInUse name) bp
      else Done (bp\<lparr>known := (known bp)(name \<mapsto> (if js_truthy shared then shared else JBool True))\<rparr>))"

definition addArgument :: "string \<Rightarrow> arg_spec \<Rightarrow> blueprint \<Rightarrow> blueprint outcome" where
  "addArgument name spec bp =
     (if forbidden spec then
        (if name \<in> allowArgs bp then Threw (ForbiddenArgument name) bp
         else Done (bp\<lparr>noArgs := insert name (noArgs bp)\<rparr>))
      else if name \<in> noArgs bp then Threw (ForbiddenArgument name) bp
      else Done (bp\<lparr>allowArgs := insert name (allowArgs bp),
                     assignArgs := (assignArgs bp)(name \<mapsto> assign spec)\<rparr>))"

fun args :: "string list \<Rightarrow> blueprint \<Rightarrow> blueprint outcome" where
  "args [] bp = Done bp"
| "args (i # list) bp =
     and_then (addArgument i \<lparr>forbidden = False, assign = True\<rparr> bp) (args list)"

definition setup_add :: "string \<Rightarrow> action \<Rightarrow> blueprint \<Rightarrow> blueprint outcome" where
  "setup_add ident act bp = Done (bp\<lparr>setup_list := setup_list bp @ [(ident, act)]\<rparr>)"

section \<open>The browser\<close>

text \<open>
  What the code asks of \<open>window\<close>: the nodes \<open>div.innerHTML = str\<close> leaves under a new
  \<open>div\<close>, the nodes \<open>window.$(str)\<close> gives for a string, and the markup \<open>outerHTML\<close> of
  a node.
\<close>

record window =
  innerHTML :: "string \<Rightarrow> dnode list"
  select :: "string \<Rightarrow> dnode list"
  outerHTML :: "dnode \<Rightarrow> string"

text \<open>
  \<open>parseHTML\<close> is a plain function called as \<open>parseHTML(html)\<close> in strict mode, so its
  \<open>this\<close> is \<open>undefined\<close> and both of its \<open>this.throw(...)\<close> lines raise a
  \<open>TypeError\<close> instead of the message they carry. With exactly one child
  (\<open>firstChild == lastChild\<close>) it returns that child, of whatever kind.
\<close>

definition parseHTML :: "window \<Rightarrow> string \<Rightarrow> dnode result" where
  "parseHTML w str =
     (case innerHTML w str of
        [] \<Rightarrow> Throws TypeError
      | [n] \<Rightarrow> Returns n
      | _ \<Rightarrow> Throws TypeError)"

definition checkElement :: "window \<Rightarrow> elem_arg \<Rightarrow> string \<Rightarrow> dnode result" where
  "checkElement w element act =
     (case element of
        NoElement \<Rightarrow> Throws (NullElement act)
      | NotJQ \<Rightarrow> Throws (NonJQuery act)
      | Selector sel \<Rightarrow>
          (if sel = [] then Throws (NullElement act)
           else case select w sel of
                  [] \<Rightarrow> Throws (MissingElement act sel)
                | [n] \<Rightarrow> Returns n
                | _ \<Rightarrow> Throws (AmbiguousElement act sel))
      | JQ ns \<Rightarrow>
          (case ns of
             [] \<Rightarrow> Throws (MissingElement act [])
           | [n] \<Rightarrow> Returns n
           | _ \<Rightarrow> Throws (AmbiguousElement act [])))"

definition html :: "window \<Rightarrow> jsprim \<Rightarrow> blueprint \<Rightarrow> blueprint outcome" where
  "html w h bp =
     (if js_truthy h then
        (case parseHTML w (js_to_string h) of
           Throws e \<Rightarrow> Threw e bp
         | Returns n \<Rightarrow>
             (case checkElement w (JQ [n]) ''accept html() that is'' of
                Throws e \<Rightarrow> Threw e bp
              | Returns c \<Rightarrow> Done (bp\<lparr>html_src := h\<rparr>)))
      else Done (bp\<lparr>html_src := JUndefined\<rparr>))"

definition htmlFrom :: "window \<Rightarrow> elem_arg \<Rightarrow> blueprint \<Rightarrow> blueprint outcome" where
  "htmlFrom w selector bp =
     (case checkElement w selector ''get HTML from'' of
        Throws e \<Rightarrow> Threw e bp
      | Returns n \<Rightarrow>
          Done (bp\<lparr>html_src := (case n of Elem i cs ks \<Rightarrow> JStr (outerHTML w n)
                                          | TextNode t \<Rightarrow> JUndefined)\<rparr>))"

section \<open>The callback resolver\<close>

text \<open>
  A call that is made: the function, its receiver and its arguments. The functions of
  the caller are opaque; what the model keeps of them is that they were called.
\<close>

datatype 'r call = Call (callee: nat) (receiver: 'r) (arguments: "jsval list")

text \<open>The three closures \<open>curry\<close> returns, with what each one captures (\<open>curry_cb\<close>
  here, as \<open>curry\<close> is a function of the logic).\<close>

datatype 'r bound =
    ByName 'r string "jsval list"
  | WithPreargs 'r nat "jsval list"
  | Bind 'r nat

definition curry_cb :: "'r \<Rightarrow> jsval \<Rightarrow> 'r bound result" where
  "curry_cb item spec =
     (case (case spec of VArr xs \<Rightarrow> xs | _ \<Rightarrow> [spec]) of
        [] \<Rightarrow> Throws UnexpectedCallback
      | todo # preargs \<Rightarrow>
          (case todo of
             VPrim (JStr m) \<Rightarrow> Returns (ByName item m preargs)
           | VFun f \<Rightarrow> if preargs \<noteq> [] then Returns (WithPreargs item f preargs)
                       else Returns (Bind item f)
           | _ \<Rightarrow> Throws UnexpectedCallback))"

text \<open>
  Calling the closure with the arguments \<open>rargs\<close>, where \<open>props item m\<close> is the value of
  \<open>item[m]\<close> at the time of the call.
\<close>

fun invoke :: "('r \<Rightarrow> string \<Rightarrow> jsval) \<Rightarrow> 'r bound \<Rightarrow> jsval list \<Rightarrow> 'r call result" where
  "invoke props (ByName item m preargs) rargs =
     (case props item m of
        VFun f \<Rightarrow> Returns (Call f item (preargs @ rargs))
      | _ \<Rightarrow> Throws TypeError)"
| "invoke props (WithPreargs item f preargs) rargs = Returns (Call f item (preargs @ rargs))"
| "invoke props (Bind item f) rargs = Returns (Call f item rargs)"

section \<open>The sticky state machine\<close>

text \<open>
  The closure \<open>stickyState\<close> registers holds \<open>state\<close>; \<open>trace\<close> lists the handler calls
  made so far. The transition table maps the name of a state to its handler. A handler
  is opaque: it returns, and does not call the machine itself.
\<close>

record 'r machine =
  state :: jsprim
  trace :: "'r call list"

datatype 'r returned = TheState jsprim | This 'r

definition machine_call ::
  "string \<Rightarrow> (string \<times> nat) list \<Rightarrow> 'r \<Rightarrow> jsprim \<Rightarrow> 'r machine
    \<Rightarrow> 'r returned result \<times> 'r machine" where
  "machine_call name action_hash this arg m =
     (if arg = JUndefined then (Returns (TheState (state m)), m)
      else if \<not> loose_eq arg (state m) then
        (case map_of action_hash (js_to_string arg) of
           None \<Rightarrow> (Throws (IllegalStateSwitch name (state m) arg), m)
         | Some todo \<Rightarrow>
             (Returns (This this),
              m\<lparr>trace := trace m @ [Call todo this [VPrim (state m), VPrim arg]],
                state := arg\<rparr>))
      else (Returns (This this), m))"

section \<open>The builder methods\<close>

text \<open>
  Each method returns the blueprint or throws. \<open>output\<close>, \<open>input\<close>, \<open>on\<close> and \<open>setup\<close>
  are \<open>output_decl\<close>, \<open>input_decl\<close>, \<open>on_event\<close> and \<open>setup_add\<close> here, their own names
  being reserved words of the logic.
\<close>

text \<open>\<open>if (!name) name = id\<close>, for a name that may be left out.\<close>

definition name_or :: "string \<Rightarrow> string option \<Rightarrow> string" where
  "name_or ident name = (case name of None \<Rightarrow> ident | Some n \<Rightarrow> if n = [] then ident else n)"

definition output_decl :: "string \<Rightarrow> string option \<Rightarrow> blueprint \<Rightarrow> blueprint outcome" where
  "output_decl ident name bp =
     and_then (lockName (name_or ident name) JUndefined bp)
       (setup_add ident (Output (name_or ident name)))"

definition rawOutput :: "string \<Rightarrow> string option \<Rightarrow> blueprint \<Rightarrow> blueprint outcome" where
  "rawOutput ident name bp =
     and_then (lockName (name_or ident name) JUndefined bp)
       (setup_add ident (RawOutput (name_or ident name)))"

definition input_decl :: "string \<Rightarrow> string option \<Rightarrow> blueprint \<Rightarrow> blueprint outcome" where
  "input_decl ident name bp =
     and_then (lockName (name_or ident name) JUndefined bp)
       (setup_add ident (Input (name_or ident name)))"

definition click :: "string \<Rightarrow> jsval \<Rightarrow> blueprint \<Rightarrow> blueprint outcome" where
  "click ident cb bp = setup_add ident (Click cb) bp"

definition toggle :: "string \<Rightarrow> jsval \<Rightarrow> jsval \<Rightarrow> blueprint \<Rightarrow> blueprint outcome" where
  "toggle ident cb_on cb_off bp = setup_add ident (Toggle cb_on cb_off) bp"

definition stickyClick :: "string \<Rightarrow> string \<Rightarrow> jsval \<Rightarrow> blueprint \<Rightarrow> blueprint outcome" where
  "stickyClick ident name cb bp =
     and_then (lockName name (JStr ''stickyClick'') bp) (setup_add ident (StickyClick name cb))"

definition element :: "string \<Rightarrow> string option \<Rightarrow> blueprint \<Rightarrow> blueprint outcome" where
  "element ident name bp =
     and_then (lockName (name_or ident name) JUndefined bp) (\<lambda>bp.
     and_then (addArgument (name_or ident name) \<lparr>forbidden = True, assign = False\<rparr> bp)
       (setup_add ident (Element (name_or ident name))))"

definition on_event :: "string \<Rightarrow> string \<Rightarrow> jsval \<Rightarrow> blueprint \<Rightarrow> blueprint outcome" where
  "on_event trigger ident cb bp = setup_add ident (On trigger cb) bp"

definition upload :: "string \<Rightarrow> string option \<Rightarrow> jsprim \<Rightarrow> blueprint \<Rightarrow> blueprint outcome" where
  "upload ident name type bp =
     and_then (lockName (name_or ident name) JUndefined bp) (\<lambda>bp.
     and_then (addArgument (name_or ident name) \<lparr>forbidden = True, assign = False\<rparr> bp)
       (setup_add ident (Upload (name_or ident name) type)))"

definition init :: "string \<Rightarrow> initializer \<Rightarrow> blueprint \<Rightarrow> blueprint outcome" where
  "init name ini bp =
     and_then (lockName name JUndefined bp)
       (\<lambda>bp. Done (bp\<lparr>init_list := AList.update name ini (init_list bp)\<rparr>))"

definition def :: "string \<Rightarrow> jsval \<Rightarrow> blueprint \<Rightarrow> blueprint outcome" where
  "def name act bp =
     and_then (lockName name JUndefined bp) (\<lambda>bp.
       Done (bp\<lparr>isMethod := (case act of VFun f \<Rightarrow> insert name (isMethod bp) | _ \<Rightarrow> isMethod bp),
                init_list := AList.update name (DefInit act) (init_list bp)\<rparr>))"

definition initArray :: "string \<Rightarrow> jsval list \<Rightarrow> blueprint \<Rightarrow> blueprint outcome" where
  "initArray name start bp = init name (ArrayInit start) bp"

definition initObject :: "string \<Rightarrow> (string \<times> jsval) list \<Rightarrow> blueprint \<Rightarrow> blueprint outcome" where
  "initObject name start bp = init name (ObjectInit start) bp"

definition stickyState ::
  "string \<Rightarrow> (string \<times> nat) list \<Rightarrow> jsprim \<Rightarrow> blueprint \<Rightarrow> blueprint outcome" where
  "stickyState name action_hash initial bp =
     (if initial \<noteq> JUndefined \<and> map_of action_hash (js_to_string initial) = None
      then Threw (IllegalInitialState initial) bp
      else init name (StickyInit name action_hash initial)
             (bp\<lparr>isMethod := insert name (isMethod bp)\<rparr>))"

definition onAttach :: "nat \<Rightarrow> blueprint \<Rightarrow> blueprint outcome" where
  "onAttach f bp = Done (bp\<lparr>onAttach_list := onAttach_list bp @ [f]\<rparr>)"

definition onRemove :: "nat \<Rightarrow> blueprint \<Rightarrow> blueprint outcome" where
  "onRemove cb bp = Done (bp\<lparr>onRemove_list := onRemove_list bp @ [cb]\<rparr>)"

section \<open>Binding: attach and spawn\<close>

text \<open>
  \<open>attach\<close> builds one instance, so the receiver of every call it makes is that
  instance.
\<close>

datatype self = Instance

datatype accessor = TextOf | HtmlOf | ValOf

text \<open>
  What a property of the instance holds: a plain value, a resolved node, an accessor
  pair over a node (\<open>output\<close>, \<open>rawOutput\<close>, \<open>input\<close>), the file reader of \<open>upload\<close>,
  a sticky state machine with its current state, or what a factory of the caller
  returned.
\<close>

datatype field =
    Plain jsval
  | Node dnode
  | Accessor accessor dnode
  | Uploader dnode jsprim
  | Machine string "(string \<times> nat) list" jsprim
  | Produced nat

datatype listener =
    OnClick "self bound"
  | OnToggle "self bound" "self bound"
  | OnStickyClick string "self bound"
  | OnTrigger "self bound"

text \<open>
  The instance under construction and what building it did to the render tree:
  \<open>listeners\<close> are the handlers registered on nodes with \<open>element.on\<close>, \<open>writes\<close> the
  contents set through an accessor, \<open>calls\<close> the functions of the caller that ran. The
  properties \<open>attach\<close> itself gives an instance (\<open>container\<close>, \<open>_onRemove\<close>, \<open>element\<close>) are
  fields of the record; \<open>own_props\<close> holds the declared ones, which the registry keeps
  apart from the reserved names.
\<close>

record bound_instance =
  container :: dnode
  onRemove_cbs :: "nat list"
  element_map :: "(string \<times> dnode) list"
  own_props :: "(string \<times> field) list"
  listeners :: "(dnode \<times> string \<times> listener) list"
  writes :: "(dnode \<times> accessor \<times> field) list"
  calls :: "self call list"

text \<open>
  \<open>attach\<close> either returns the instance or throws; when it throws after
  \<open>new jRna.Bound()\<close>, the state reached is kept.
\<close>

datatype attach_result =
    is_Failed: Failed error "bound_instance option"
  | is_Attached: Attached bound_instance

text \<open>\<open>Object.defineProperty\<close>: an accessor defined earlier is not configurable.\<close>

definition defineProperty :: "string \<Rightarrow> field \<Rightarrow> bound_instance \<Rightarrow> bound_instance outcome" where
  "defineProperty name f st =
     (case map_of (own_props st) name of
        Some (Accessor a el) \<Rightarrow> Threw TypeError st
      | _ \<Rightarrow> Done (st\<lparr>own_props := AList.update name f (own_props st)\<rparr>))"

text \<open>\<open>inst[name] = v\<close>: through the setter when the property is an accessor.\<close>

definition assign_field :: "string \<Rightarrow> field \<Rightarrow> bound_instance \<Rightarrow> bound_instance" where
  "assign_field name v st =
     (case map_of (own_props st) name of
        Some (Accessor a el) \<Rightarrow> st\<lparr>writes := writes st @ [(el, a, v)]\<rparr>
      | _ \<Rightarrow> st\<lparr>own_props := AList.update name v (own_props st)\<rparr>)"

definition listen :: "dnode \<Rightarrow> string \<Rightarrow> listener \<Rightarrow> bound_instance \<Rightarrow> bound_instance" where
  "listen el trigger l st = st\<lparr>listeners := listeners st @ [(el, trigger, l)]\<rparr>"

fun run_action :: "action \<Rightarrow> dnode \<Rightarrow> bound_instance \<Rightarrow> bound_instance outcome" where
  "run_action (Output name) el st = defineProperty name (Accessor TextOf el) st"
| "run_action (RawOutput name) el st = defineProperty name (Accessor HtmlOf el) st"
| "run_action (Input name) el st = defineProperty name (Accessor ValOf el) st"
| "run_action (Click cb) el st =
     (case curry_cb Instance cb of
        Throws e \<Rightarrow> Threw e st
      | Returns b \<Rightarrow> Done (listen el ''click'' (OnClick b) st))"
| "run_action (Toggle cb_on cb_off) el st =
     (case curry_cb Instance cb_on of
        Throws e \<Rightarrow> Threw e st
      | Returns bound_on \<Rightarrow>
          (case curry_cb Instance cb_off of
             Throws e \<Rightarrow> Threw e st
           | Returns bound_off \<Rightarrow> Done (listen el ''click'' (OnToggle bound_on bound_off) st)))"
| "run_action (StickyClick name cb) el st =
     (case curry_cb Instance cb of
        Throws e \<Rightarrow> Threw e st
      | Returns b \<Rightarrow> Done (listen el ''click'' (OnStickyClick name b) st))"
| "run_action (Element name) el st = Done (assign_field name (Node el) st)"
| "run_action (On trigger cb) el st =
     (case curry_cb Instance cb of
        Throws e \<Rightarrow> Threw e st
      | Returns b \<Rightarrow> Done (listen el trigger (OnTrigger b) st))"
| "run_action (Upload name type) el st = Done (assign_field name (Uploader el type) st)"

definition prefix :: string where
  "prefix = ''jrna-''"

text \<open>
  The nodes a receptor may resolve to: the container when it carries the class, then
  the descendants that do. The receptor names are class names, free of selector syntax.
\<close>

definition candidates :: "dnode \<Rightarrow> string \<Rightarrow> dnode list" where
  "candidates c ident =
     (if hasClass c (prefix @ ident) then [c] else []) @ find_class c (prefix @ ident)"

definition resolve :: "window \<Rightarrow> dnode \<Rightarrow> string \<Rightarrow> dnode result" where
  "resolve w c ident =
     checkElement w (JQ (candidates c ident)) (''fulfill .'' @ prefix @ ident @ '' with'')"

fun run_setup :: "window \<Rightarrow> (string \<times> action) list \<Rightarrow> bound_instance \<Rightarrow> bound_instance outcome" where
  "run_setup w [] st = Done st"
| "run_setup w ((ident, act) # rest) st =
     (case resolve w (container st) ident of
        Throws e \<Rightarrow> Threw e st
      | Returns el \<Rightarrow>
          and_then (run_action act el st) (\<lambda>st.
            run_setup w rest (st\<lparr>element_map := AList.update ident el (element_map st)\<rparr>)))"

text \<open>The argument object: its keys in enumeration order, with primitive values.\<close>

type_synonym arguments = "(string \<times> jsprim) list"

definition args_object :: "arguments \<Rightarrow> jsval" where
  "args_object a = VObj (map (\<lambda>(k, v). (k, VPrim v)) a)"

definition called :: "nat \<Rightarrow> jsval list \<Rightarrow> bound_instance \<Rightarrow> bound_instance" where
  "called f xs st = st\<lparr>calls := calls st @ [Call f Instance xs]\<rparr>"

fun run_initializer :: "arguments \<Rightarrow> string \<Rightarrow> initializer \<Rightarrow> bound_instance \<Rightarrow> bound_instance" where
  "run_initializer a name (DefInit v) st = assign_field name (Plain v) st"
| "run_initializer a name (UserInit f) st =
     assign_field name (Produced f) (called f [args_object a] st)"
| "run_initializer a name (ArrayInit start) st = assign_field name (Plain (VArr start)) st"
| "run_initializer a name (ObjectInit start) st = assign_field name (Plain (VObj start)) st"
| "run_initializer a name (StickyInit n action_hash initial) st =
     assign_field name (Machine n action_hash initial) st"

fun run_init :: "blueprint \<Rightarrow> arguments \<Rightarrow> (string \<times> initializer) list \<Rightarrow> bound_instance \<Rightarrow> bound_instance" where
  "run_init bp a [] st = st"
| "run_init bp a ((i, ini) # rest) st =
     (if i \<notin> isMethod bp \<and> i \<in> fst ` set a then run_init bp a rest st
      else run_init bp a rest (run_initializer a i ini st))"

text \<open>
  \<open>inst[key](args[key])\<close>: a function of the caller is called, a state machine makes its
  step, and anything else is not callable.
\<close>

definition call_method :: "string \<Rightarrow> jsprim \<Rightarrow> bound_instance \<Rightarrow> bound_instance outcome" where
  "call_method key v st =
     (case map_of (own_props st) key of
        Some (Plain (VFun f)) \<Rightarrow> Done (called f [VPrim v] st)
      | Some (Machine n action_hash s) \<Rightarrow>
          (case machine_call n action_hash Instance v \<lparr>state = s, trace = calls st\<rparr> of
             (Throws e, m) \<Rightarrow> Threw e st
           | (Returns r, m) \<Rightarrow>
               Done (st\<lparr>own_props := AList.update key (Machine n action_hash (state m)) (own_props st),
                        calls := trace m\<rparr>))
      | _ \<Rightarrow> Threw TypeError st)"

fun run_args :: "blueprint \<Rightarrow> arguments \<Rightarrow> bound_instance \<Rightarrow> bound_instance outcome" where
  "run_args bp [] st = Done st"
| "run_args bp ((key, v) # rest) st =
     (if key \<notin> allowArgs bp then Threw (UnknownArgument key) st
      else if assignArgs bp key \<noteq> Some True then run_args bp rest st
      else if key \<in> isMethod bp then and_then (call_method key v st) (run_args bp rest)
      else run_args bp rest (assign_field key (Plain (VPrim v)) st))"

fun run_onAttach :: "arguments \<Rightarrow> nat list \<Rightarrow> bound_instance \<Rightarrow> bound_instance" where
  "run_onAttach a [] st = st"
| "run_onAttach a (f # fs) st = run_onAttach a fs (called f [args_object a] st)"

definition new_Bound :: "blueprint \<Rightarrow> dnode \<Rightarrow> bound_instance" where
  "new_Bound bp c =
     \<lparr> container = c, onRemove_cbs = onRemove_list bp, element_map = [], own_props = [],
       listeners = [], writes = [], calls = [] \<rparr>"

definition attach :: "window \<Rightarrow> elem_arg \<Rightarrow> arguments \<Rightarrow> blueprint \<Rightarrow> attach_result" where
  "attach w cont a bp =
     (case checkElement w cont ''attach to'' of
        Throws e \<Rightarrow> Failed e None
      | Returns c \<Rightarrow>
          (case and_then (run_setup w (setup_list bp) (new_Bound bp c)) (\<lambda>st.
                  run_args bp a (run_init bp a (init_list bp) st)) of
             Threw e st \<Rightarrow> Failed e (Some st)
           | Done st \<Rightarrow> Attached (run_onAttach a (onAttach_list bp) st)))"

definition spawn :: "window \<Rightarrow> arguments \<Rightarrow> blueprint \<Rightarrow> attach_result" where
  "spawn w a bp =
     (if \<not> js_truthy (html_src bp) then Failed EmptySpawn None
      else case parseHTML w (js_to_string (html_src bp)) of
             Throws e \<Rightarrow> Failed e None
           | Returns n \<Rightarrow>
               (case checkElement w (JQ [n]) ''spawn() while html() is'' of
                  Throws e \<Rightarrow> Failed e None
                | Returns c \<Rightarrow> attach w (JQ [c]) a bp))"

section \<open>The blueprints a caller can build\<close>

text \<open>
  \<open>evolves bp bp'\<close>: the blueprint \<open>bp'\<close> is \<open>bp\<close> after any number of calls of the
  builder methods, each of which returned or threw. The blueprints of a program are
  those that evolve from \<open>jRna\<close>, the state the constructor leaves. (\<open>args\<close>,
  \<open>initArray\<close> and \<open>initObject\<close> are calls of \<open>addArgument\<close> and \<open>init\<close>.)
\<close>

inductive evolves :: "blueprint \<Rightarrow> blueprint \<Rightarrow> bool" where
  same: "evolves bp bp"
| by_lockName: "evolves bp0 bp \<Longrightarrow> evolves bp0 (state_of (lockName n t bp))"
| by_html: "evolves bp0 bp \<Longrightarrow> evolves bp0 (state_of (html w h bp))"
| by_htmlFrom: "evolves bp0 bp \<Longrightarrow> evolves bp0 (state_of (htmlFrom w sel bp))"
| by_addArgument: "evolves bp0 bp \<Longrightarrow> evolves bp0 (state_of (addArgument n spec bp))"
| by_setup: "evolves bp0 bp \<Longrightarrow> evolves bp0 (state_of (setup_add i act bp))"
| by_output: "evolves bp0 bp \<Longrightarrow> evolves bp0 (state_of (output_decl i nm bp))"
| by_rawOutput: "evolves bp0 bp \<Longrightarrow> evolves bp0 (state_of (rawOutput i nm bp))"
| by_input: "evolves bp0 bp \<Longrightarrow> evolves bp0 (state_of (input_decl i nm bp))"
| by_click: "evolves bp0 bp \<Longrightarrow> evolves bp0 (state_of (click i cb bp))"
| by_toggle: "evolves bp0 bp \<Longrightarrow> evolves bp0 (state_of (toggle i cb1 cb2 bp))"
| by_stickyClick: "evolves bp0 bp \<Longrightarrow> evolves bp0 (state_of (stickyClick i n cb bp))"
| by_element: "evolves bp0 bp \<Longrightarrow> evolves bp0 (state_of (element i nm bp))"
| by_on: "evolves bp0 bp \<Longrightarrow> evolves bp0 (state_of (on_event tr i cb bp))"
| by_upload: "evolves bp0 bp \<Longrightarrow> evolves bp0 (state_of (upload i nm ty bp))"
| by_def: "evolves bp0 bp \<Longrightarrow> evolves bp0 (state_of (def n v bp))"
| by_init: "evolves bp0 bp \<Longrightarrow> evolves bp0 (state_of (init n ini bp))"
| by_stickyState: "evolves bp0 bp \<Longrightarrow> evolves bp0 (state_of (stickyState n tbl initial bp))"
| by_onAttach: "evolves bp0 bp \<Longrightarrow> evolves bp0 (state_of (onAttach f bp))"
| by_onRemove: "evolves bp0 bp \<Longrightarrow> evolves bp0 (state_of (onRemove f bp))"

text \<open>What every builder call keeps: forbidden names stay forbidden, exclusive locks stay.\<close>

definition keeps :: "blueprint \<Rightarrow> blueprint \<Rightarrow> bool" where
  "keeps bp bp' \<longleftrightarrow> noArgs bp \<subseteq> noArgs bp' \<and>
     (\<forall>r. known bp r = Some (JBool True) \<longrightarrow> known bp' r = Some (JBool True))"

section \<open>What the builder methods keep\<close>

lemma keeps_refl: "keeps bp bp"
  by (simp add: keeps_def)

lemma keeps_trans: "keeps a b \<Longrightarrow> keeps b c \<Longrightarrow> keeps a c"
  by (auto simp: keeps_def)

lemma keeps_and_then:
  "keeps bp (state_of r) \<Longrightarrow> (\<And>s. keeps s (state_of (f s))) \<Longrightarrow> keeps bp (state_of (and_then r f))"
  by (cases r) (auto intro: keeps_trans)

lemma keeps_lockName: "keeps bp (state_of (lockName n t bp))"
  by (cases t) (auto simp: keeps_def lockName_def known_at_def)

lemma keeps_addArgument: "keeps bp (state_of (addArgument n spec bp))"
  by (auto simp: keeps_def addArgument_def)

lemma keeps_setup_add: "keeps bp (state_of (setup_add i act bp))"
  by (simp add: keeps_def setup_add_def)

lemma keeps_html: "keeps bp (state_of (html w h bp))"
  by (auto simp: keeps_def html_def split: result.splits)

lemma keeps_htmlFrom: "keeps bp (state_of (htmlFrom w sel bp))"
  by (auto simp: keeps_def htmlFrom_def split: result.splits)

lemma keeps_init: "keeps bp (state_of (init n ini bp))"
  unfolding init_def by (rule keeps_and_then [OF keeps_lockName]) (simp add: keeps_def)

lemma keeps_by_def: "keeps bp (state_of (def n v bp))"
  unfolding def_def by (rule keeps_and_then [OF keeps_lockName]) (simp add: keeps_def)

lemma keeps_element: "keeps bp (state_of (element i nm bp))"
  unfolding element_def
  by (intro keeps_and_then keeps_lockName keeps_addArgument keeps_setup_add)

lemma keeps_upload: "keeps bp (state_of (upload i nm ty bp))"
  unfolding upload_def
  by (intro keeps_and_then keeps_lockName keeps_addArgument keeps_setup_add)

lemma keeps_stickyState: "keeps bp (state_of (stickyState n tbl initial bp))"
proof -
  have "keeps bp (bp\<lparr>isMethod := insert n (isMethod bp)\<rparr>)" by (simp add: keeps_def)
  then show ?thesis
    using keeps_init [of "bp\<lparr>isMethod := insert n (isMethod bp)\<rparr>" n]
    by (auto simp: stickyState_def keeps_refl intro: keeps_trans)
qed

lemma keeps_output: "keeps bp (state_of (output_decl i nm bp))"
  unfolding output_decl_def by (intro keeps_and_then keeps_lockName keeps_setup_add)

lemma keeps_rawOutput: "keeps bp (state_of (rawOutput i nm bp))"
  unfolding rawOutput_def by (intro keeps_and_then keeps_lockName keeps_setup_add)

lemma keeps_input: "keeps bp (state_of (input_decl i nm bp))"
  unfolding input_decl_def by (intro keeps_and_then keeps_lockName keeps_setup_add)

lemma keeps_stickyClick: "keeps bp (state_of (stickyClick i n cb bp))"
  unfolding stickyClick_def by (intro keeps_and_then keeps_lockName keeps_setup_add)

lemma keeps_click: "keeps bp (state_of (click i cb bp))"
  unfolding click_def by (rule keeps_setup_add)

lemma keeps_toggle: "keeps bp (state_of (toggle i cb1 cb2 bp))"
  unfolding toggle_def by (rule keeps_setup_add)

lemma keeps_on: "keeps bp (state_of (on_event tr i cb bp))"
  unfolding on_event_def by (rule keeps_setup_add)

lemma keeps_onAttach: "keeps bp (state_of (onAttach f bp))"
  by (simp add: onAttach_def keeps_def)

lemma keeps_onRemove: "keeps bp (state_of (onRemove f bp))"
  by (simp add: onRemove_def keeps_def)

lemmas keeps_steps =
  keeps_lockName keeps_html keeps_htmlFrom keeps_addArgument keeps_setup_add keeps_output
  keeps_rawOutput keeps_input keeps_click keeps_toggle keeps_stickyClick keeps_element keeps_on
  keeps_upload keeps_by_def keeps_init keeps_stickyState keeps_onAttach keeps_onRemove

lemma evolves_keeps: "evolves bp0 bp \<Longrightarrow> keeps bp0 bp"
  by (induction rule: evolves.induct) (blast intro: keeps_refl keeps_trans keeps_steps)+

lemma built_reserved: "evolves jRna bp \<Longrightarrow> r \<in> set reserved \<Longrightarrow> r \<in> noArgs bp"
  using evolves_keeps [of jRna bp] by (auto simp: keeps_def jRna_def)


section \<open>The property registry\<close>


lemma strict_eq_iff: "strict_eq a b \<longleftrightarrow> a = b \<and> a \<noteq> JNaN"
  by (cases a; cases b) auto




section \<open>The sticky state machine: properties\<close>













section \<open>The callback resolver: properties\<close>

lemma curry_fun: "\<exists>b. curry_cb item (VFun f) = Returns b \<and> invoke props b R = Returns (Call f item R)"
  by (simp add: curry_cb_def)

lemma curry_fun_arr:
  "\<exists>b. curry_cb item (VArr (VFun f # pre)) = Returns b \<and>
       invoke props b R = Returns (Call f item (pre @ R))"
  by (simp add: curry_cb_def)

lemma curry_name:
  "\<exists>b. curry_cb item (VPrim (JStr m)) = Returns b \<and>
       (\<forall>props f. props item m = VFun f \<longrightarrow> invoke props b R = Returns (Call f item R))"
  by (simp add: curry_cb_def)

lemma curry_name_arr:
  "\<exists>b. curry_cb item (VArr (VPrim (JStr m) # pre)) = Returns b \<and>
       (\<forall>props f. props item m = VFun f \<longrightarrow>
          invoke props b R = Returns (Call f item (pre @ R)))"
  by (simp add: curry_cb_def)

lemma curry_other:
  assumes "\<forall>f. spec \<noteq> VFun f" "\<forall>m. spec \<noteq> VPrim (JStr m)"
    "\<forall>f pre. spec \<noteq> VArr (VFun f # pre)" "\<forall>m pre. spec \<noteq> VArr (VPrim (JStr m) # pre)"
  shows "curry_cb item spec = Throws UnexpectedCallback"
proof (cases spec)
  case (VPrim p)
  with assms show ?thesis by (cases p) (auto simp: curry_cb_def)
next
  case (VFun f)
  with assms show ?thesis by simp
next
  case (VArr xs)
  show ?thesis
  proof (cases xs)
    case Nil
    with VArr show ?thesis by (simp add: curry_cb_def)
  next
    case (Cons todo pre)
    with VArr assms show ?thesis
      by (cases todo) (auto simp: curry_cb_def split: jsprim.splits)
  qed
next
  case (VObj kv)
  then show ?thesis by (simp add: curry_cb_def)
qed

text \<open>
  C7. For a function, a method name, or an array headed by one of them, \<open>curry\<close>
  returns a closure; calling the closure with the arguments \<open>R\<close> calls the callback with
  the instance as receiver and the leading arguments followed by \<open>R\<close>. A method name is
  read on the instance when the closure is called (\<open>later\<close> is the instance then), so
  the function found there at that time is the one called. Every other specification
  throws.
\<close>

theorem curry_contract:
  "(\<exists>b. curry_cb item (VFun f) = Returns b \<and> invoke props b R = Returns (Call f item R)) \<and>
   (\<exists>b. curry_cb item (VArr (VFun f # pre)) = Returns b \<and>
        invoke props b R = Returns (Call f item (pre @ R))) \<and>
   (\<exists>b. curry_cb item (VPrim (JStr m)) = Returns b \<and>
        (\<forall>later g. later item m = VFun g \<longrightarrow> invoke later b R = Returns (Call g item R))) \<and>
   (\<exists>b. curry_cb item (VArr (VPrim (JStr m) # pre)) = Returns b \<and>
        (\<forall>later g. later item m = VFun g \<longrightarrow>
           invoke later b R = Returns (Call g item (pre @ R)))) \<and>
   ((\<forall>f. spec \<noteq> VFun f) \<and> (\<forall>m. spec \<noteq> VPrim (JStr m)) \<and>
    (\<forall>f pre. spec \<noteq> VArr (VFun f # pre)) \<and> (\<forall>m pre. spec \<noteq> VArr (VPrim (JStr m) # pre)) \<longrightarrow>
      curry_cb item spec = Throws UnexpectedCallback)"
proof (intro conjI impI)
  show "\<exists>b. curry_cb item (VFun f) = Returns b \<and> invoke props b R = Returns (Call f item R)"
    by (rule curry_fun)
  show "\<exists>b. curry_cb item (VArr (VFun f # pre)) = Returns b \<and>
        invoke props b R = Returns (Call f item (pre @ R))"
    by (rule curry_fun_arr)
  show "\<exists>b. curry_cb item (VPrim (JStr m)) = Returns b \<and>
        (\<forall>later g. later item m = VFun g \<longrightarrow> invoke later b R = Returns (Call g item R))"
    by (rule curry_name)
  show "\<exists>b. curry_cb item (VArr (VPrim (JStr m) # pre)) = Returns b \<and>
        (\<forall>later g. later item m = VFun g \<longrightarrow>
           invoke later b R = Returns (Call g item (pre @ R)))"
    by (rule curry_name_arr)
next
  assume "(\<forall>f. spec \<noteq> VFun f) \<and> (\<forall>m. spec \<noteq> VPrim (JStr m)) \<and>
    (\<forall>f pre. spec \<noteq> VArr (VFun f # pre)) \<and> (\<forall>m pre. spec \<noteq> VArr (VPrim (JStr m) # pre))"
  then show "curry_cb item spec = Throws UnexpectedCallback"
    by (intro curry_other) simp_all
qed

text \<open>
  \<open>['save', 1]\<close> called with 2, on an instance whose \<open>save\<close> is function 8 and on one
  whose \<open>save\<close> has become function 9; and \<open>undefined\<close> as a specification.
\<close>

theorem curry_contract_witness:
  "curry_cb Instance (VArr [VPrim (JStr ''save''), VPrim (JNum 1)])
     = Returns (ByName Instance ''save'' [VPrim (JNum 1)]) \<and>
   invoke (\<lambda>i n. if n = ''save'' then VFun 8 else VPrim JUndefined)
       (ByName Instance ''save'' [VPrim (JNum 1)]) [VPrim (JNum 2)]
     = Returns (Call 8 Instance [VPrim (JNum 1), VPrim (JNum 2)]) \<and>
   invoke (\<lambda>i n. if n = ''save'' then VFun 9 else VPrim JUndefined)
       (ByName Instance ''save'' [VPrim (JNum 1)]) [VPrim (JNum 2)]
     = Returns (Call 9 Instance [VPrim (JNum 1), VPrim (JNum 2)]) \<and>
   curry_cb Instance (VPrim JUndefined) = Throws UnexpectedCallback"
  using curry_contract [of Instance 0 "\<lambda>i n. VPrim JUndefined" "[VPrim (JNum 2)]" "[VPrim (JNum 1)]"
      "''save''" "VPrim JUndefined"]
  by (simp add: curry_cb_def)

section \<open>Templates: properties\<close>

lemma checkElement_single: "checkElement w (JQ [n]) act = Returns n"
  by (simp add: checkElement_def)

lemma html_truthy:
  "js_truthy h \<Longrightarrow>
     html w h bp = (case innerHTML w (js_to_string h) of
                      [n] \<Rightarrow> Done (bp\<lparr>html_src := h\<rparr>)
                    | _ \<Rightarrow> Threw TypeError bp)"
  by (simp add: html_def parseHTML_def checkElement_single split: list.splits)

text \<open>
  C6 (as amended). A truthy markup value is accepted by \<open>html\<close> when it parses to
  exactly one root node, of whatever kind, and is then stored as the template; when it
  parses to no node or to several, \<open>html\<close> throws at once and the blueprint is
  unchanged. A falsy value, the empty string among them, is not validated: \<open>html\<close>
  returns and the blueprint has no template.
\<close>

theorem html_accepts:
  "(js_truthy h \<and> innerHTML w (js_to_string h) = [n] \<longrightarrow>
      html w h bp = Done (bp\<lparr>html_src := h\<rparr>)) \<and>
   (js_truthy h \<and> length (innerHTML w (js_to_string h)) \<noteq> 1 \<longrightarrow>
      (\<exists>e. html w h bp = Threw e bp)) \<and>
   (\<not> js_truthy h0 \<longrightarrow> html w h0 bp = Done (bp\<lparr>html_src := JUndefined\<rparr>))"
proof (intro conjI impI)
  assume "js_truthy h \<and> innerHTML w (js_to_string h) = [n]"
  then show "html w h bp = Done (bp\<lparr>html_src := h\<rparr>)" by (simp add: html_truthy)
next
  assume "js_truthy h \<and> length (innerHTML w (js_to_string h)) \<noteq> 1"
  then show "\<exists>e. html w h bp = Threw e bp"
    by (cases "innerHTML w (js_to_string h)") (auto simp: html_truthy split: list.splits)
next
  assume "\<not> js_truthy h0"
  then show "html w h0 bp = Done (bp\<lparr>html_src := JUndefined\<rparr>)" by (simp add: html_def)
qed

text \<open>
  \<open>hello\<close> parses to one text node and the empty string is not parsed; two paragraphs
  parse to two root nodes.
\<close>

theorem html_accepts_witness:
  "html \<lparr>innerHTML = (\<lambda>s. [TextNode s]), select = (\<lambda>s. []), outerHTML = (\<lambda>n. [])\<rparr>
        (JStr ''hello'') jRna = Done (jRna\<lparr>html_src := JStr ''hello''\<rparr>) \<and>
   html \<lparr>innerHTML = (\<lambda>s. [TextNode s]), select = (\<lambda>s. []), outerHTML = (\<lambda>n. [])\<rparr>
        (JStr []) jRna = Done (jRna\<lparr>html_src := JUndefined\<rparr>) \<and>
   html \<lparr>innerHTML = (\<lambda>s. [Elem 1 [] [], Elem 2 [] []]), select = (\<lambda>s. []),
         outerHTML = (\<lambda>n. [])\<rparr>
        (JStr ''<p></p><p></p>'') jRna = Threw TypeError jRna"
proof -
  have two: "html \<lparr>innerHTML = (\<lambda>s. [Elem 1 [] [], Elem 2 [] []]), select = (\<lambda>s. []),
         outerHTML = (\<lambda>n. [])\<rparr>
        (JStr ''<p></p><p></p>'') jRna = Threw TypeError jRna"
    by (simp add: html_def parseHTML_def)
  note one = html_accepts [of "JStr ''hello''"
      "\<lparr>innerHTML = (\<lambda>s. [TextNode s]), select = (\<lambda>s. []), outerHTML = (\<lambda>n. [])\<rparr>"
      "TextNode ''hello''" jRna "JStr []"]
  note several = html_accepts [of "JStr ''<p></p><p></p>''"
      "\<lparr>innerHTML = (\<lambda>s. [Elem 1 [] [], Elem 2 [] []]), select = (\<lambda>s. []),
         outerHTML = (\<lambda>n. [])\<rparr>"
      "TextNode ''hello''" jRna "JStr []"]
  show ?thesis
    using one several two by simp
qed

text \<open>
  C6 as stated fails: \<open>html\<close> returns for the empty string, and it returns for
  \<open>hello\<close>, whose single root is a text node.
\<close>

theorem html_empty_counterexample:
  "is_Done (html \<lparr>innerHTML = (\<lambda>s. if s = [] then [] else [TextNode s]), select = (\<lambda>s. []),
                  outerHTML = (\<lambda>n. [])\<rparr> (JStr []) jRna) \<and>
   is_Done (html \<lparr>innerHTML = (\<lambda>s. if s = [] then [] else [TextNode s]), select = (\<lambda>s. []),
                  outerHTML = (\<lambda>n. [])\<rparr> (JStr ''hello'') jRna)"
  by (simp add: html_def parseHTML_def checkElement_def)

text \<open>
  C9. For a falsy value, the empty string among them, \<open>html\<close> does not throw: it
  returns the blueprint with the template cleared to \<open>undefined\<close>, whatever the parser
  would say of the value, and a later \<open>spawn\<close> throws
  \<open>Trying to spawn with an empty html()\<close> before an instance exists.
\<close>

theorem html_falsy_then_spawn:
  "\<not> js_truthy h \<longrightarrow>
     html w h bp = Done (bp\<lparr>html_src := JUndefined\<rparr>) \<and>
     html w h bp = html w' h bp \<and>
     spawn w a (state_of (html w h bp)) = Failed EmptySpawn None"
  by (simp add: html_def spawn_def)

text \<open>The empty string on a new blueprint.\<close>

theorem html_falsy_then_spawn_witness:
  "\<not> js_truthy (JStr []) \<and>
   html \<lparr>innerHTML = (\<lambda>s. []), select = (\<lambda>s. []), outerHTML = (\<lambda>n. [])\<rparr> (JStr []) jRna
     = Done (jRna\<lparr>html_src := JUndefined\<rparr>) \<and>
   spawn \<lparr>innerHTML = (\<lambda>s. []), select = (\<lambda>s. []), outerHTML = (\<lambda>n. [])\<rparr> []
       (jRna\<lparr>html_src := JUndefined\<rparr>) = Failed EmptySpawn None"
  using html_falsy_then_spawn [of "JStr []"
      "\<lparr>innerHTML = (\<lambda>s. []), select = (\<lambda>s. []), outerHTML = (\<lambda>n. [])\<rparr>" jRna
      "\<lparr>innerHTML = (\<lambda>s. []), select = (\<lambda>s. []), outerHTML = (\<lambda>n. [])\<rparr>" "[]"]
  by (simp add: html_def)

section \<open>Argument names: properties\<close>

lemma element_forbids:
  "is_Done (element i nm bp) \<Longrightarrow> name_or i nm \<in> noArgs (state_of (element i nm bp))"
  by (auto simp: element_def lockName_def addArgument_def setup_add_def)

lemma upload_forbids:
  "is_Done (upload i nm ty bp) \<Longrightarrow> name_or i nm \<in> noArgs (state_of (upload i nm ty bp))"
  by (auto simp: upload_def lockName_def addArgument_def setup_add_def)

text \<open>
  C10. On every blueprint built from a new one, \<open>addArgument(name)\<close> throws
  \<open>Forbidden argument name\<close> when the name is one of the seven reserved names or was
  registered as forbidden before, as \<open>element\<close> and \<open>upload\<close> do for the property they
  declare. \<open>id\<close> is allowed and assignable from the start, and still cannot be declared
  with \<open>addArgument\<close>. \<open>addArgument(name, {forbidden: true})\<close> throws when the name is
  allowed.
\<close>

theorem addArgument_forbidden:
  "(evolves jRna bp \<and> (n \<in> set reserved \<or> n \<in> noArgs bp) \<and> \<not> forbidden spec \<longrightarrow>
      addArgument n spec bp = Threw (ForbiddenArgument n) bp) \<and>
   (evolves bp0 bp \<and> n \<in> noArgs bp0 \<and> \<not> forbidden spec \<longrightarrow>
      addArgument n spec bp = Threw (ForbiddenArgument n) bp) \<and>
   ((is_Done (element i nm bp0) \<and> evolves (state_of (element i nm bp0)) bp \<or>
     is_Done (upload i nm ty bp0) \<and> evolves (state_of (upload i nm ty bp0)) bp) \<and>
    \<not> forbidden spec \<longrightarrow>
      addArgument (name_or i nm) spec bp = Threw (ForbiddenArgument (name_or i nm)) bp) \<and>
   ''id'' \<in> allowArgs jRna \<and> assignArgs jRna ''id'' = Some True \<and>
   (evolves jRna bp \<and> \<not> forbidden spec \<longrightarrow>
      addArgument ''id'' spec bp = Threw (ForbiddenArgument ''id'') bp) \<and>
   (n \<in> allowArgs bp \<and> forbidden spec \<longrightarrow>
      addArgument n spec bp = Threw (ForbiddenArgument n) bp)"
proof (intro conjI impI)
  assume "evolves jRna bp \<and> (n \<in> set reserved \<or> n \<in> noArgs bp) \<and> \<not> forbidden spec"
  then show "addArgument n spec bp = Threw (ForbiddenArgument n) bp"
    using built_reserved [of bp n] by (auto simp: addArgument_def)
next
  assume "evolves bp0 bp \<and> n \<in> noArgs bp0 \<and> \<not> forbidden spec"
  then show "addArgument n spec bp = Threw (ForbiddenArgument n) bp"
    using evolves_keeps [of bp0 bp] by (auto simp: addArgument_def keeps_def)
next
  assume "(is_Done (element i nm bp0) \<and> evolves (state_of (element i nm bp0)) bp \<or>
     is_Done (upload i nm ty bp0) \<and> evolves (state_of (upload i nm ty bp0)) bp) \<and>
    \<not> forbidden spec"
  then show "addArgument (name_or i nm) spec bp = Threw (ForbiddenArgument (name_or i nm)) bp"
    using evolves_keeps [of "state_of (element i nm bp0)" bp] element_forbids [of i nm bp0]
      evolves_keeps [of "state_of (upload i nm ty bp0)" bp] upload_forbids [of i nm ty bp0]
    by (auto simp: addArgument_def keeps_def)
next
  show "''id'' \<in> allowArgs jRna" "assignArgs jRna ''id'' = Some True"
    by (simp_all add: jRna_def)
next
  assume "evolves jRna bp \<and> \<not> forbidden spec"
  then show "addArgument ''id'' spec bp = Threw (ForbiddenArgument ''id'') bp"
    using built_reserved [of bp "''id''"] by (auto simp: addArgument_def reserved_def)
next
  assume "n \<in> allowArgs bp \<and> forbidden spec"
  then show "addArgument n spec bp = Threw (ForbiddenArgument n) bp"
    by (simp add: addArgument_def)
qed


lemma element_title: "is_Done (element ''title'' None jRna)"
  by (simp add: element_def lockName_def known_at_def addArgument_def setup_add_def name_or_def
      jRna_def reserved_def)

text \<open>The blueprint after \<open>element('title')\<close>, asked for \<open>id\<close> and for \<open>title\<close>.\<close>

theorem addArgument_forbidden_witness:
  "evolves jRna (state_of (element ''title'' None jRna)) \<and>
   ''id'' \<in> set reserved \<and> is_Done (element ''title'' None jRna) \<and>
   addArgument ''id'' \<lparr>forbidden = False, assign = True\<rparr> (state_of (element ''title'' None jRna))
     = Threw (ForbiddenArgument ''id'') (state_of (element ''title'' None jRna)) \<and>
   addArgument ''title'' \<lparr>forbidden = False, assign = True\<rparr> (state_of (element ''title'' None jRna))
     = Threw (ForbiddenArgument ''title'') (state_of (element ''title'' None jRna)) \<and>
   ''id'' \<in> allowArgs jRna \<and>
   addArgument ''id'' \<lparr>forbidden = True, assign = False\<rparr> jRna = Threw (ForbiddenArgument ''id'') jRna"
proof -
  let ?bp = "state_of (element ''title'' None jRna)"
  let ?spec = "\<lparr>forbidden = False, assign = True\<rparr>"
  have ev: "evolves jRna ?bp" by (rule by_element [OF same])
  have same: "evolves ?bp ?bp" by (rule evolves.same)
  have res: "''id'' \<in> set reserved" by (simp add: reserved_def)
  note thm1 = addArgument_forbidden [of ?bp "''id''" ?spec jRna "''title''" None JUndefined]
  note thm2 = addArgument_forbidden [of jRna "''id''" "\<lparr>forbidden = True, assign = False\<rparr>" jRna
      "''title''" None JUndefined]
  show ?thesis
    using ev same res element_title thm1 thm2 by (simp add: name_or_def)
qed

section \<open>Binding: properties\<close>



















lemma attach_no_container:
  "is_Throws (checkElement w cont ''attach to'') \<Longrightarrow> is_Failed (attach w cont a bp)"
  by (cases "checkElement w cont ''attach to''") (simp_all add: attach_def)







end
